theory Spec2Isabelle
  imports Complex_Main
begin

section \<open>The grasp pose generator of the task constructor\<close>

text \<open>
  This theory embeds \<^verbatim>\<open>core/src/stages/generate_grasp_pose.cpp\<close>: the readiness query
  \<^verbatim>\<open>GenerateGraspPose::canCompute\<close> and the production step
  \<^verbatim>\<open>GenerateGraspPose::compute\<close>.

  Modelling decisions.
  \<^item> A C++ \<^verbatim>\<open>double\<close> is a \<^typ>\<open>real\<close>: arithmetic is exact, rounding and non-finite
    values are not modelled. A statement whose truth depends on the sums being exact says
    so, by asking that the sums are doubles (\<open>is_double\<close>).
  \<^item> The macro \<^verbatim>\<open>M_PI\<close> is the double it denotes, \<open>884279719003555 / 2 ^ 48\<close>, the double
    nearest to \<open>pi\<close> and a little below it.
  \<^item> An \<^verbatim>\<open>Eigen::Affine3d\<close> is its 3x3 linear part and its translation; products and
    inverses follow Eigen's formulas for the affine mode.
  \<^item> A \<^verbatim>\<open>geometry_msgs\<close> transform or pose is represented by the affine transform that
    \<^verbatim>\<open>tf::transformMsgToEigen\<close> reads from it, respectively that
    \<^verbatim>\<open>tf::poseEigenToMsg\<close> writes into it.
  \<^item> The planning scene, the robot model and state, the marker helpers and
    \<^verbatim>\<open>std::to_string\<close> are not part of the file. They are collected in a record of host
    operations over an arbitrary scene type, and \<open>compute\<close> takes that record as a parameter.
  \<^item> \<^verbatim>\<open>throw\<close> and a failed \<^verbatim>\<open>assert\<close> are error values. \<open>compute\<close> returns its
    outcome together with the stage as the call leaves it, because what was mutated before
    a \<^verbatim>\<open>throw\<close> stays mutated.
  \<^item> \<^verbatim>\<open>spawn\<close> appends the emitted pair to the list \<open>spawned\<close> of the stage.
  \<^item> The members \<^verbatim>\<open>scene_\<close> and \<^verbatim>\<open>current_angle_\<close> are the fields \<open>scene\<close> and
    \<open>current_angle\<close>: a name cannot end in an underscore here.
\<close>

subsection \<open>Eigen: vectors, matrices, affine transforms\<close>

datatype vec3 = Vec3 real real real

text \<open>A 3x3 matrix, row by row.\<close>

datatype mat3 = Mat3 real real real  real real real  real real real

datatype affine3d = Affine3d (linear: mat3) (translation: vec3)

fun vec_add :: "vec3 \<Rightarrow> vec3 \<Rightarrow> vec3" where
  "vec_add (Vec3 a b c) (Vec3 x y z) = Vec3 (a + x) (b + y) (c + z)"

fun vec_neg :: "vec3 \<Rightarrow> vec3" where
  "vec_neg (Vec3 x y z) = Vec3 (- x) (- y) (- z)"

fun mat_vec :: "mat3 \<Rightarrow> vec3 \<Rightarrow> vec3" where
  "mat_vec (Mat3 a b c  d e f  g h i) (Vec3 x y z) =
     Vec3 (a * x + b * y + c * z) (d * x + e * y + f * z) (g * x + h * y + i * z)"

fun mat_mul :: "mat3 \<Rightarrow> mat3 \<Rightarrow> mat3" where
  "mat_mul (Mat3 a b c  d e f  g h i) (Mat3 a' b' c'  d' e' f'  g' h' i') =
     Mat3 (a * a' + b * d' + c * g') (a * b' + b * e' + c * h') (a * c' + b * f' + c * i')
          (d * a' + e * d' + f * g') (d * b' + e * e' + f * h') (d * c' + e * f' + f * i')
          (g * a' + h * d' + i * g') (g * b' + h * e' + i * h') (g * c' + h * f' + i * i')"

definition mat_id :: mat3 where
  "mat_id = Mat3 1 0 0  0 1 0  0 0 1"

text \<open>
  Eigen inverts a fixed-size 3x3 matrix by cofactors: the determinant is the first column
  times its cofactors, and every entry of the result is a cofactor times \<open>1 / det\<close>.
  For a singular matrix Eigen divides by zero and produces non-finite entries, which a
  \<^typ>\<open>real\<close> cannot hold; HOL's \<open>1 / 0 = 0\<close> stands there instead, so every statement
  below that relies on the value of an inverse asks for a determinant other than zero.
\<close>

fun determinant :: "mat3 \<Rightarrow> real" where
  "determinant (Mat3 a b c  d e f  g h i) =
     (e * i - f * h) * a + (h * c - i * b) * d + (b * f - c * e) * g"

fun mat_inverse :: "mat3 \<Rightarrow> mat3" where
  "mat_inverse (Mat3 a b c  d e f  g h i) =
     (let invdet = 1 / determinant (Mat3 a b c  d e f  g h i) in
      Mat3 ((e * i - f * h) * invdet) ((h * c - i * b) * invdet) ((b * f - c * e) * invdet)
           ((f * g - d * i) * invdet) ((i * a - g * c) * invdet) ((c * d - a * f) * invdet)
           ((d * h - e * g) * invdet) ((g * b - h * a) * invdet) ((a * e - b * d) * invdet))"

definition Identity :: affine3d where
  "Identity = Affine3d mat_id (Vec3 0 0 0)"

text \<open>\<^verbatim>\<open>operator*\<close> of two affine transforms.\<close>

fun compose :: "affine3d \<Rightarrow> affine3d \<Rightarrow> affine3d" where
  "compose (Affine3d A t) (Affine3d B u) = Affine3d (mat_mul A B) (vec_add (mat_vec A u) t)"

text \<open>\<^verbatim>\<open>Transform::inverse()\<close> in affine mode.\<close>

fun inverse_tf :: "affine3d \<Rightarrow> affine3d" where
  "inverse_tf (Affine3d A t) = Affine3d (mat_inverse A) (vec_neg (mat_vec (mat_inverse A) t))"

definition UnitY :: vec3 where
  "UnitY = Vec3 0 1 0"

definition UnitZ :: vec3 where
  "UnitZ = Vec3 0 0 1"

text \<open>
  \<^verbatim>\<open>Eigen::AngleAxisd(angle, axis)\<close> as the right factor of a product with an affine
  transform: the rotation matrix of \<^verbatim>\<open>AngleAxis::toRotationMatrix\<close> and no translation.
\<close>

fun AngleAxisd :: "real \<Rightarrow> vec3 \<Rightarrow> affine3d" where
  "AngleAxisd angle (Vec3 x y z) =
     (let c = cos angle; sx = sin angle * x; sy = sin angle * y; sz = sin angle * z;
          cx = (1 - c) * x; cy = (1 - c) * y; cz = (1 - c) * z
      in Affine3d (Mat3 (cx * x + c)   (cx * y - sz) (cx * z + sy)
                        (cx * y + sz) (cy * y + c)   (cy * z - sx)
                        (cx * z - sy) (cy * z + sx) (cz * z + c))
                  (Vec3 0 0 0))"

text \<open>\<^verbatim>\<open>Eigen::Translation3d(x, y, z)\<close> as the right factor of such a product.\<close>

definition Translation3d :: "real \<Rightarrow> real \<Rightarrow> real \<Rightarrow> affine3d" where
  "Translation3d x y z = Affine3d mat_id (Vec3 x y z)"

text \<open>
  \<^verbatim>\<open>M_PI\<close> is the literal \<^verbatim>\<open>3.14159265358979323846\<close> read as a double, whose value is
  \<open>884279719003555 / 2 ^ 48\<close>. Twice a double is exact, so \<open>2 * M_PI\<close> is the bound that
  \<^verbatim>\<open>canCompute\<close> compares with.
\<close>

definition M_PI :: real where
  "M_PI = 884279719003555 / 281474976710656"


subsection \<open>Messages, properties and the emitted pair\<close>

record TransformStamped =
  tf_frame_id :: string
  transform :: affine3d

record PoseStamped =
  pose_frame_id :: string
  pose :: affine3d

record ColorRGBA =
  rgba_r :: real
  rgba_g :: real
  rgba_b :: real
  rgba_a :: real

datatype marker_shape = Arrow real | LinkVisual string

record Marker =
  marker_frame_id :: string
  ns :: string
  color :: ColorRGBA
  shape :: marker_shape
  marker_pose :: affine3d

text \<open>The five properties the constructor declares, with the values \<^verbatim>\<open>get\<close> returns.\<close>

record properties =
  eef :: string
  eef_named_pose :: string
  object :: string
  tool_to_grasp_tf :: TransformStamped
  angle_delta :: real

text \<open>
  The interface state carries the property \<^verbatim>\<open>target_pose\<close>. The scene it points to is the
  scene of the stage itself, which the record does not repeat.
\<close>

record InterfaceState =
  target_pose :: PoseStamped

record SubTrajectory =
  cost :: real
  name :: string
  markers :: "Marker list"

text \<open>What the stage reads from a joint model group of an end effector.\<close>

record JointModelGroup =
  getEndEffectorParentLink :: string
  getLinkModelNames :: "string list"

datatype error = AssertionFailed string | RuntimeError string

subsection \<open>The host operations\<close>

text \<open>
  \<open>'sc\<close> is the state of the scene \<^verbatim>\<open>scene_\<close>, which includes the robot state that
  \<^verbatim>\<open>getCurrentStateNonConst\<close> hands out. \<open>getEndEffector\<close> is \<open>None\<close> where
  \<^verbatim>\<open>hasEndEffector\<close> is false. \<open>generateVisualMarkers\<close> lists the markers and names the
  helper passes to its callback.
\<close>

record 'sc host =
  getEndEffector :: "string \<Rightarrow> JointModelGroup option"
  getFrameTransform :: "'sc \<Rightarrow> string \<Rightarrow> affine3d"
  getPlanningFrame :: "'sc \<Rightarrow> string"
  setToDefaultValues :: "JointModelGroup \<Rightarrow> string \<Rightarrow> 'sc \<Rightarrow> 'sc"
  updateStateWithLinkAt :: "string \<Rightarrow> affine3d \<Rightarrow> 'sc \<Rightarrow> 'sc"
  generateVisualMarkers :: "'sc \<Rightarrow> string list \<Rightarrow> (Marker \<times> string) list"
  to_string :: "real \<Rightarrow> string"
  LIME_GREEN :: ColorRGBA

subsection \<open>The stage\<close>

record 'sc stage =
  props :: properties
  scene :: 'sc
  current_angle :: real
  spawned :: "(InterfaceState \<times> SubTrajectory) list"

definition canCompute :: "'sc stage \<Rightarrow> bool" where
  "canCompute s \<longleftrightarrow> current_angle s < 2 * M_PI \<and> current_angle s > - 2 * M_PI"

text \<open>Lines 105 to 109: the named pose, if one is configured, is applied to the robot state.\<close>

definition apply_named_pose :: "'sc host \<Rightarrow> JointModelGroup \<Rightarrow> properties \<Rightarrow> 'sc \<Rightarrow> 'sc" where
  "apply_named_pose h jmg p sc =
     (if eef_named_pose p \<noteq> [] then setToDefaultValues h jmg (eef_named_pose p) sc else sc)"

text \<open>Lines 112 to 114: an empty frame id is read as the end effector's parent link.\<close>

definition declared_frame :: "JointModelGroup \<Rightarrow> properties \<Rightarrow> string" where
  "declared_frame jmg p =
     (if tf_frame_id (tool_to_grasp_tf p) = [] then getEndEffectorParentLink jmg
      else tf_frame_id (tool_to_grasp_tf p))"

text \<open>Line 118.\<close>

definition grasp2tool_of :: "properties \<Rightarrow> affine3d" where
  "grasp2tool_of p = inverse_tf (transform (tool_to_grasp_tf p))"

text \<open>Lines 120 to 131: the transform from the grasp frame to the link frame.\<close>

definition grasp2link_of :: "'sc host \<Rightarrow> 'sc \<Rightarrow> JointModelGroup \<Rightarrow> properties \<Rightarrow> error + affine3d" where
  "grasp2link_of h sc jmg p =
     (let link_name = getEndEffectorParentLink jmg;
          to_grasp = transform (tool_to_grasp_tf p)
      in if declared_frame jmg p \<noteq> link_name then
           (let link_pose = getFrameTransform h sc link_name in
            if link_pose = Identity then
              Inl (RuntimeError ''requested link does not exist or could not be retrieved'')
            else
              (let tool_pose = getFrameTransform h sc (declared_frame jmg p) in
               if tool_pose = Identity then
                 Inl (RuntimeError ''requested frame does not exist or could not be retrieved'')
               else
                 Inr (inverse_tf (compose (compose (inverse_tf link_pose) tool_pose) to_grasp))))
         else Inr (grasp2tool_of p))"

text \<open>
  Lines 139 to 176, the body of the loop: one candidate is built from the current angle,
  the angle advances, and the pair is spawned.
\<close>

definition sample :: "'sc host \<Rightarrow> JointModelGroup \<Rightarrow> affine3d \<Rightarrow> affine3d \<Rightarrow> 'sc stage \<Rightarrow> 'sc stage" where
  "sample h jmg grasp2link object_pose s =
     (let link_name = getEndEffectorParentLink jmg;
          grasp_pose = compose object_pose (AngleAxisd (current_angle s) UnitZ);
          link_pose = compose grasp_pose grasp2link;
          angle = current_angle s + angle_delta (props s);
          state = \<lparr>target_pose = \<lparr>pose_frame_id = link_name, pose = link_pose\<rparr>\<rparr>;
          scale = 0.1;
          m = \<lparr>marker_frame_id = getPlanningFrame h (scene s),
               ns = ''grasp pose'',
               color = LIME_GREEN h,
               shape = Arrow scale,
               marker_pose =
                 compose (compose (compose grasp_pose (grasp2tool_of (props s)))
                            (AngleAxisd (- M_PI / 2) UnitY))
                         (Translation3d (- scale) 0 0)\<rparr>;
          sc = updateStateWithLinkAt h link_name link_pose (scene s);
          appended = map (\<lambda>(marker, n). marker\<lparr>ns := ''grasp eef'',
                                                color := (color marker)\<lparr>rgba_a := rgba_a (color marker) * 0.5\<rparr>\<rparr>)
                         (generateVisualMarkers h sc (getLinkModelNames jmg));
          trajectory = \<lparr>cost = 0, name = to_string h angle, markers = m # appended\<rparr>
      in s\<lparr>scene := sc, current_angle := angle, spawned := spawned s @ [(state, trajectory)]\<rparr>)"

text \<open>
  \<^verbatim>\<open>compute\<close>. The \<^verbatim>\<open>while\<close> loop returns at the end of its first iteration, so it is
  the conditional it amounts to.
\<close>

definition compute :: "'sc host \<Rightarrow> 'sc stage \<Rightarrow> (error + bool) \<times> 'sc stage" where
  "compute h s =
     (case getEndEffector h (eef (props s)) of
        None \<Rightarrow> (Inl (AssertionFailed ''The specified end effector is not defined in the srdf''), s)
      | Some jmg \<Rightarrow>
          (let s1 = s\<lparr>scene := apply_named_pose h jmg (props s) (scene s)\<rparr> in
           case grasp2link_of h (scene s1) jmg (props s) of
             Inl e \<Rightarrow> (Inl e, s1)
           | Inr grasp2link \<Rightarrow>
               (let object_pose = getFrameTransform h (scene s1) (object (props s)) in
                if object_pose = Identity then
                  (Inl (RuntimeError ''requested object does not exist or could not be retrieved''), s1)
                else if canCompute s1 then (Inr True, sample h jmg grasp2link object_pose s1)
                else (Inr False, s1))))"

text \<open>The stage after \<open>n\<close> calls of \<open>compute\<close>, whatever they return.\<close>

primrec computes :: "'sc host \<Rightarrow> nat \<Rightarrow> 'sc stage \<Rightarrow> 'sc stage" where
  "computes h 0 s = s"
| "computes h (Suc n) s = snd (compute h (computes h n s))"

subsection \<open>Predicates used in the statements\<close>

text \<open>
  Every frame that \<open>compute\<close> looks up in the scene \<open>sc\<close> resolves, that is, the lookup
  returns something other than the identity: the object always, the parent link and the
  declared frame when the declared frame is not the parent link.
\<close>

definition frames_resolve :: "'sc host \<Rightarrow> 'sc \<Rightarrow> JointModelGroup \<Rightarrow> properties \<Rightarrow> bool" where
  "frames_resolve h sc jmg p \<longleftrightarrow>
     (declared_frame jmg p \<noteq> getEndEffectorParentLink jmg \<longrightarrow>
        getFrameTransform h sc (getEndEffectorParentLink jmg) \<noteq> Identity \<and>
        getFrameTransform h sc (declared_frame jmg p) \<noteq> Identity) \<and>
     getFrameTransform h sc (object p) \<noteq> Identity"

text \<open>
  The end effector of the stage exists and the frames resolve in the scene in which
  \<open>compute\<close> looks them up, the scene after the named pose was applied.
\<close>

definition resolves :: "'sc host \<Rightarrow> 'sc stage \<Rightarrow> bool" where
  "resolves h s =
     (case getEndEffector h (eef (props s)) of
        None \<Rightarrow> False
      | Some jmg \<Rightarrow> frames_resolve h (apply_named_pose h jmg (props s) (scene s)) jmg (props s))"

text \<open>The same in every scene: an environment in which no call of \<open>compute\<close> can fail.\<close>

definition always_resolves :: "'sc host \<Rightarrow> properties \<Rightarrow> bool" where
  "always_resolves h p =
     (case getEndEffector h (eef p) of
        None \<Rightarrow> False
      | Some jmg \<Rightarrow> \<forall>sc. frames_resolve h sc jmg p)"

text \<open>The frames do not move when the robot state is changed.\<close>

definition static_frames :: "'sc host \<Rightarrow> bool" where
  "static_frames h \<longleftrightarrow> (\<forall>sc sc' f. getFrameTransform h sc f = getFrameTransform h sc' f)"

subsection \<open>An example environment\<close>

text \<open>
  A scene whose state is the list of the changes made to its robot state, with three
  frames that stay where they are: the object, the parent link \<open>hand\<close> of the end
  effector \<open>gripper\<close>, and a frame \<open>tool\<close>. Every other frame is unknown, for which
  \<open>getFrameTransform\<close> returns the identity. The example host renders every number
  as the same string.
\<close>

datatype scene_change = SetToDefaultValues JointModelGroup string | UpdateStateWithLinkAt string affine3d

definition example_host :: "scene_change list host" where
  "example_host =
     \<lparr>getEndEffector = (\<lambda>e. if e = ''gripper''
                               then Some \<lparr>getEndEffectorParentLink = ''hand'', getLinkModelNames = [''finger'']\<rparr>
                               else None),
      getFrameTransform = (\<lambda>sc f. if f = ''object'' then Translation3d 1 0 0
                                     else if f = ''hand'' then Translation3d 0 1 0
                                     else if f = ''tool'' then Translation3d 0 0 1
                                     else Identity),
      getPlanningFrame = (\<lambda>sc. ''world''),
      setToDefaultValues = (\<lambda>jmg n sc. sc @ [SetToDefaultValues jmg n]),
      updateStateWithLinkAt = (\<lambda>l t sc. sc @ [UpdateStateWithLinkAt l t]),
      generateVisualMarkers = (\<lambda>sc ls. map (\<lambda>l. (\<lparr>marker_frame_id = l, ns = [],
                                                        color = \<lparr>rgba_r = 1, rgba_g = 1, rgba_b = 1, rgba_a = 1\<rparr>,
                                                        shape = LinkVisual l, marker_pose = Identity\<rparr>, l)) ls),
      to_string = (\<lambda>x. ''angle''),
      LIME_GREEN = \<lparr>rgba_r = 0, rgba_g = 1, rgba_b = 0, rgba_a = 1\<rparr>\<rparr>"

text \<open>
  The properties of the examples: the end effector \<open>gripper\<close>, no named pose, the offset
  \<open>T\<close> declared in the frame \<open>frame\<close>, and the angular step \<open>delta\<close>.
\<close>

definition example_props :: "string \<Rightarrow> string \<Rightarrow> affine3d \<Rightarrow> real \<Rightarrow> properties" where
  "example_props obj frame T delta =
     \<lparr>eef = ''gripper'', eef_named_pose = [], object = obj,
      tool_to_grasp_tf = \<lparr>tf_frame_id = frame, transform = T\<rparr>, angle_delta = delta\<rparr>"

text \<open>A stage with these properties at the angle \<open>angle\<close>, nothing changed or spawned yet.\<close>

definition example_stage :: "properties \<Rightarrow> real \<Rightarrow> scene_change list stage" where
  "example_stage p angle = \<lparr>props = p, scene = [], current_angle = angle, spawned = []\<rparr>"

text \<open>
  A second environment, in which the parent link moves: \<open>updateStateWithLinkAt\<close> puts the
  link where it is told, and \<open>getFrameTransform\<close> finds the link where it was last put,
  at \<open>(0, 1, 0)\<close> before that. Everything else is as in the first environment.
\<close>

definition moved_to :: "string \<Rightarrow> affine3d \<Rightarrow> scene_change list \<Rightarrow> affine3d" where
  "moved_to l t0 sc =
     foldl (\<lambda>t c. case c of
                     UpdateStateWithLinkAt l' t' \<Rightarrow> if l' = l then t' else t
                   | SetToDefaultValues jmg n \<Rightarrow> t) t0 sc"

definition moving_host :: "scene_change list host" where
  "moving_host =
     example_host\<lparr>getFrameTransform :=
       (\<lambda>sc f. if f = ''hand'' then moved_to ''hand'' (Translation3d 0 1 0) sc
                else getFrameTransform example_host sc f)\<rparr>"

subsection \<open>Counting the candidates\<close>


subsection \<open>The series of the arc tangent\<close>

text \<open>The term of index \<open>k\<close> of the series of \<open>arctan x\<close>, without its sign.\<close>

definition arctan_term :: "real \<Rightarrow> nat \<Rightarrow> real" where
  "arctan_term x k = 1 / real (k * 2 + 1) * x ^ (k * 2 + 1)"

section \<open>Auxiliary facts\<close>

subsection \<open>The number pi, its double, and the geometry\<close>

lemma arctan_term_nonneg: "0 \<le> x \<Longrightarrow> 0 \<le> arctan_term x k"
  by (simp add: arctan_term_def)

lemma arctan_term_decreasing:
  assumes "0 \<le> x" and "x \<le> 1"
  shows "arctan_term x (Suc k) \<le> arctan_term x k"
proof -
  have p: "x ^ (Suc k * 2 + 1) \<le> x ^ (k * 2 + 1)"
    using assms by (intro power_decreasing) simp_all
  have q: "1 / real (Suc k * 2 + 1) \<le> 1 / real (k * 2 + 1)"
    by (simp add: field_simps)
  have "1 / real (Suc k * 2 + 1) * x ^ (Suc k * 2 + 1) \<le> 1 / real (k * 2 + 1) * x ^ (k * 2 + 1)"
    using p q assms(1) by (intro mult_mono) simp_all
  then show ?thesis by (simp only: arctan_term_def)
qed

lemma arctan_term_tendsto_zero:
  assumes "0 \<le> x" and "x < 1"
  shows "arctan_term x \<longlonglongrightarrow> 0"
proof (rule tendsto_sandwich)
  show "\<forall>\<^sub>F k in sequentially. 0 \<le> arctan_term x k"
    using assms(1) by (simp add: arctan_term_nonneg)
  have "arctan_term x k \<le> x ^ k" for k
  proof -
    have "x ^ (k * 2 + 1) \<le> x ^ k"
      using assms by (intro power_decreasing) simp_all
    moreover have "1 / real (k * 2 + 1) \<le> 1" by simp
    ultimately have "1 / real (k * 2 + 1) * x ^ (k * 2 + 1) \<le> 1 * x ^ k"
      using assms(1) by (intro mult_mono) simp_all
    then show ?thesis by (simp add: arctan_term_def)
  qed
  then show "\<forall>\<^sub>F k in sequentially. arctan_term x k \<le> x ^ k" by simp
  show "(\<lambda>k. 0 :: real) \<longlonglongrightarrow> 0" by simp
  show "(\<lambda>k. x ^ k) \<longlonglongrightarrow> 0"
    using assms by (intro LIMSEQ_realpow_zero)
qed

text \<open>The alternating series encloses its sum between two consecutive partial sums.\<close>

lemma arctan_between_partial_sums:
  assumes "0 \<le> x" and "x < 1"
  shows "(\<Sum>k<2 * n. (- 1) ^ k * arctan_term x k) \<le> arctan x"
    and "arctan x \<le> (\<Sum>k<2 * n + 1. (- 1) ^ k * arctan_term x k)"
proof -
  have s: "arctan x = (\<Sum>k. (- 1) ^ k * arctan_term x k)"
    using arctan_series[of x] assms by (simp add: arctan_term_def)
  have d: "arctan_term x (Suc k) \<le> arctan_term x k" for k
    using assms by (intro arctan_term_decreasing) simp_all
  have z: "arctan_term x \<longlonglongrightarrow> 0"
    using assms by (rule arctan_term_tendsto_zero)
  have nn: "0 \<le> arctan_term x k" for k
    using assms(1) by (rule arctan_term_nonneg)
  show "(\<Sum>k<2 * n. (- 1) ^ k * arctan_term x k) \<le> arctan x"
    unfolding s using summable_Leibniz'(2)[OF z nn d] .
  show "arctan x \<le> (\<Sum>k<2 * n + 1. (- 1) ^ k * arctan_term x k)"
    unfolding s using summable_Leibniz'(4)[OF z nn d] .
qed

text \<open>
  The double \<open>M_PI\<close> is below \<open>pi\<close>, by about \<open>1.2 * 10 ^ - 16\<close>: Machin's formula with
  twelve terms of the series of \<open>arctan (1 / 5)\<close> and three of \<open>arctan (1 / 239)\<close>.
\<close>

lemma M_PI_less_pi: "M_PI < pi"
proof -
  have lo: "(\<Sum>k<2 * 6. (- 1) ^ k * arctan_term (1 / 5) k) \<le> arctan (1 / 5)"
    by (rule arctan_between_partial_sums) simp_all
  have hi: "arctan (1 / 239) \<le> (\<Sum>k<2 * 1 + 1. (- 1) ^ k * arctan_term (1 / 239) k)"
    by (rule arctan_between_partial_sums) simp_all
  have "pi = 16 * arctan (1 / 5) - 4 * arctan (1 / 239)"
    using machin by simp
  then have "16 * (\<Sum>k<2 * 6. (- 1) ^ k * arctan_term (1 / 5) k)
             - 4 * (\<Sum>k<2 * 1 + 1. (- 1) ^ k * arctan_term (1 / 239) k) \<le> pi"
    using lo hi by linarith
  moreover have "M_PI < 16 * (\<Sum>k<2 * 6. (- 1) ^ k * arctan_term (1 / 5) k)
             - 4 * (\<Sum>k<2 * 1 + 1. (- 1) ^ k * arctan_term (1 / 239) k)"
    by (simp add: M_PI_def arctan_term_def eval_nat_numeral)
  ultimately show ?thesis by linarith
qed

lemma M_PI_bounds: "3 < M_PI" "M_PI < 4"
  by (simp_all add: M_PI_def)


lemma compose_Identity_left: "compose Identity T = T"
  by (cases T; cases "linear T"; cases "translation T") (simp add: Identity_def mat_id_def)

lemma compose_Identity_right: "compose T Identity = T"
  by (cases T; cases "linear T"; cases "translation T") (simp add: Identity_def mat_id_def)

lemma inverse_tf_Identity: "inverse_tf Identity = Identity"
  by (simp add: Identity_def mat_id_def)

lemma AngleAxisd_zero_UnitZ: "AngleAxisd 0 UnitZ = Identity"
  by (simp add: UnitZ_def Identity_def mat_id_def)

lemma mat_inverse_left:
  assumes "determinant A \<noteq> 0"
  shows "mat_mul (mat_inverse A) A = mat_id"
proof (cases A)
  case (Mat3 a b c d e f g h i)
  define k where "k = 1 / ((e * i - f * h) * a + (h * c - i * b) * d + (b * f - c * e) * g)"
  have k: "k * ((e * i - f * h) * a + (h * c - i * b) * d + (b * f - c * e) * g) = 1"
    using assms Mat3 by (simp add: k_def)
  have e1: "(e * i - f * h) * k * a + (h * c - i * b) * k * d + (b * f - c * e) * k * g = 1"
    using k by (simp add: algebra_simps)
  have e2: "(e * i - f * h) * k * b + (h * c - i * b) * k * e + (b * f - c * e) * k * h = 0"
    by (simp add: algebra_simps)
  have e3: "(e * i - f * h) * k * c + (h * c - i * b) * k * f + (b * f - c * e) * k * i = 0"
    by (simp add: algebra_simps)
  have e4: "(f * g - d * i) * k * a + (i * a - g * c) * k * d + (c * d - a * f) * k * g = 0"
    by (simp add: algebra_simps)
  have e5: "(f * g - d * i) * k * b + (i * a - g * c) * k * e + (c * d - a * f) * k * h = 1"
    using k by (simp add: algebra_simps)
  have e6: "(f * g - d * i) * k * c + (i * a - g * c) * k * f + (c * d - a * f) * k * i = 0"
    by (simp add: algebra_simps)
  have e7: "(d * h - e * g) * k * a + (g * b - h * a) * k * d + (a * e - b * d) * k * g = 0"
    by (simp add: algebra_simps)
  have e8: "(d * h - e * g) * k * b + (g * b - h * a) * k * e + (a * e - b * d) * k * h = 0"
    by (simp add: algebra_simps)
  have e9: "(d * h - e * g) * k * c + (g * b - h * a) * k * f + (a * e - b * d) * k * i = 1"
    using k by (simp add: algebra_simps)
  show ?thesis
    unfolding Mat3 mat_id_def mat_inverse.simps determinant.simps Let_def k_def[symmetric] mat_mul.simps
    using e1 e2 e3 e4 e5 e6 e7 e8 e9 by simp
qed

lemma inverse_tf_left:
  assumes "determinant (linear T) \<noteq> 0"
  shows "compose (inverse_tf T) T = Identity"
proof (cases T)
  case (Affine3d A t)
  have "mat_mul (mat_inverse A) A = mat_id"
    using assms Affine3d by (simp add: mat_inverse_left)
  moreover have "vec_add (mat_vec M t) (vec_neg (mat_vec M t)) = Vec3 0 0 0" for M
    by (cases "mat_vec M t") simp
  ultimately show ?thesis
    by (simp add: Affine3d Identity_def)
qed

subsection \<open>One call of compute\<close>

lemma canCompute_scene [simp]: "canCompute (s\<lparr>scene := sc\<rparr>) = canCompute s"
  by (simp add: canCompute_def)

lemma sample_fields:
  "props (sample h jmg gl op s) = props s"
  "current_angle (sample h jmg gl op s) = current_angle s + angle_delta (props s)"
  "length (spawned (sample h jmg gl op s)) = Suc (length (spawned s))"
  by (simp_all add: sample_def Let_def)

lemma grasp2link_of_Inr:
  "frames_resolve h sc jmg p \<Longrightarrow> \<exists>gl. grasp2link_of h sc jmg p = Inr gl"
  by (simp add: frames_resolve_def grasp2link_of_def Let_def)

lemma compute_success:
  assumes "getEndEffector h (eef (props s)) = Some jmg"
    and "grasp2link_of h (apply_named_pose h jmg (props s) (scene s)) jmg (props s) = Inr gl"
    and "getFrameTransform h (apply_named_pose h jmg (props s) (scene s)) (object (props s)) \<noteq> Identity"
    and "canCompute s"
  shows "compute h s = (Inr True, sample h jmg gl
            (getFrameTransform h (apply_named_pose h jmg (props s) (scene s)) (object (props s)))
            (s\<lparr>scene := apply_named_pose h jmg (props s) (scene s)\<rparr>))"
  using assms by (simp add: compute_def Let_def)

lemma compute_exhausted:
  assumes "getEndEffector h (eef (props s)) = Some jmg"
    and "frames_resolve h (apply_named_pose h jmg (props s) (scene s)) jmg (props s)"
    and "\<not> canCompute s"
  shows "compute h s = (Inr False, s\<lparr>scene := apply_named_pose h jmg (props s) (scene s)\<rparr>)"
proof -
  obtain gl where "grasp2link_of h (apply_named_pose h jmg (props s) (scene s)) jmg (props s) = Inr gl"
    using grasp2link_of_Inr[OF assms(2)] by blast
  then show ?thesis
    using assms by (simp add: compute_def Let_def frames_resolve_def)
qed

lemma compute_props: "props (snd (compute h s)) = props s"
  by (simp add: compute_def Let_def sample_fields split: option.splits sum.splits)

lemma computes_props: "props (computes h n s) = props s"
  by (induction n) (simp_all add: compute_props)

lemma compute_idle:
  assumes "\<not> canCompute s"
  shows "current_angle (snd (compute h s)) = current_angle s"
    and "spawned (snd (compute h s)) = spawned s"
  using assms by (simp_all add: compute_def Let_def split: option.splits sum.splits)

lemma compute_at_most_one:
  "length (spawned (snd (compute h s))) \<le> Suc (length (spawned s))"
  by (simp add: compute_def Let_def sample_fields split: option.splits sum.splits)

lemma compute_True_D:
  assumes j: "getEndEffector h (eef (props s)) = Some jmg"
    and t: "fst (compute h s) = Inr True"
  shows "\<exists>gl. grasp2link_of h (apply_named_pose h jmg (props s) (scene s)) jmg (props s) = Inr gl \<and>
           compute h s = (Inr True, sample h jmg gl
             (getFrameTransform h (apply_named_pose h jmg (props s) (scene s)) (object (props s)))
             (s\<lparr>scene := apply_named_pose h jmg (props s) (scene s)\<rparr>))"
  using t by (auto simp add: compute_def j Let_def split: sum.splits if_splits)

lemma compute_True_canCompute:
  "fst (compute h s) = Inr True \<Longrightarrow> canCompute s"
  by (simp add: compute_def Let_def split: option.splits sum.splits if_splits)

lemma compute_angle_cases:
  "current_angle (snd (compute h s)) = current_angle s \<or>
   (canCompute s \<and> fst (compute h s) = Inr True \<and>
    current_angle (snd (compute h s)) = current_angle s + angle_delta (props s))"
  by (simp add: compute_def Let_def sample_fields split: option.splits sum.splits)

subsection \<open>Repeated calls\<close>

lemma computes_exhausted:
  "\<not> canCompute s \<Longrightarrow>
     \<not> canCompute (computes h n s) \<and> current_angle (computes h n s) = current_angle s \<and>
     spawned (computes h n s) = spawned s"
proof (induction n)
  case 0
  then show ?case by simp
next
  case (Suc n)
  then have "\<not> canCompute (computes h n s)" by simp
  from compute_idle[OF this, of h] Suc show ?case
    by (simp add: canCompute_def)
qed

lemma computes_multiple:
  assumes "current_angle s0 = 0"
  shows "\<exists>m::nat. current_angle (computes h k s0) = real m * angle_delta (props s0)"
proof (induction k)
  case 0
  show ?case using assms by simp
next
  case (Suc k)
  then obtain m :: nat where m: "current_angle (computes h k s0) = real m * angle_delta (props s0)"
    by blast
  from compute_angle_cases[of h "computes h k s0"]
  have "current_angle (computes h (Suc k) s0) = real m * angle_delta (props s0) \<or>
        current_angle (computes h (Suc k) s0) = real (Suc m) * angle_delta (props s0)"
    by (auto simp add: m computes_props algebra_simps)
  then show ?case by blast
qed

lemma compute_abs_mono:
  assumes "current_angle s = real m * angle_delta (props s)"
  shows "\<bar>current_angle s\<bar> \<le> \<bar>current_angle (snd (compute h s))\<bar>"
proof -
  have "\<bar>real m * d\<bar> \<le> \<bar>real m * d + d\<bar>" for d :: real
  proof -
    have "real m * d + d = real (Suc m) * d" by (simp add: algebra_simps)
    then have "\<bar>real m * d + d\<bar> = real (Suc m) * \<bar>d\<bar>" by (simp only: abs_mult abs_of_nat)
    moreover have "\<bar>real m * d\<bar> = real m * \<bar>d\<bar>" by (simp add: abs_mult)
    moreover have "real m * \<bar>d\<bar> \<le> real (Suc m) * \<bar>d\<bar>"
      by (intro mult_right_mono) simp_all
    ultimately show ?thesis by simp
  qed
  then show ?thesis
    using compute_angle_cases[of h s] assms by auto
qed

lemma static_grasp2link_of:
  assumes "static_frames h"
  shows "grasp2link_of h sc jmg p = grasp2link_of h sc' jmg p"
proof -
  have eq: "getFrameTransform h sc f = getFrameTransform h sc' f" for f
    using assms by (simp add: static_frames_def)
  show ?thesis unfolding grasp2link_of_def Let_def eq ..
qed

lemma always_resolves_resolves:
  "always_resolves h (props s) \<Longrightarrow> resolves h s"
  by (simp add: always_resolves_def resolves_def split: option.splits)

lemma compute_step:
  assumes "resolves h s" and "canCompute s"
  shows "fst (compute h s) = Inr True"
    and "current_angle (snd (compute h s)) = current_angle s + angle_delta (props s)"
    and "length (spawned (snd (compute h s))) = Suc (length (spawned s))"
proof -
  obtain jmg where j: "getEndEffector h (eef (props s)) = Some jmg"
    and fr: "frames_resolve h (apply_named_pose h jmg (props s) (scene s)) jmg (props s)"
    using assms(1) by (auto simp add: resolves_def split: option.splits)
  obtain gl where gl: "grasp2link_of h (apply_named_pose h jmg (props s) (scene s)) jmg (props s) = Inr gl"
    using grasp2link_of_Inr[OF fr] by blast
  have ob: "getFrameTransform h (apply_named_pose h jmg (props s) (scene s)) (object (props s)) \<noteq> Identity"
    using fr by (simp add: frames_resolve_def)
  note c = compute_success[OF j gl ob assms(2)]
  show "fst (compute h s) = Inr True" by (simp add: c)
  show "current_angle (snd (compute h s)) = current_angle s + angle_delta (props s)"
    by (simp add: c sample_fields)
  show "length (spawned (snd (compute h s))) = Suc (length (spawned s))"
    by (simp add: c sample_fields)
qed

lemma below_ceiling:
  fixes b d :: real
  assumes "0 < d" and "k < nat \<lceil>b / d\<rceil>"
  shows "real k * d < b"
proof -
  have "int k < \<lceil>b / d\<rceil>" using assms(2) by linarith
  then have "real k < b / d" by (simp add: less_ceiling_iff)
  then show ?thesis using assms(1) by (simp add: pos_less_divide_eq)
qed


lemma sweep:
  assumes d: "0 < angle_delta (props s0)"
    and z: "current_angle s0 = 0"
    and r: "always_resolves h (props s0)"
    and k: "k \<le> nat \<lceil>2 * M_PI / angle_delta (props s0)\<rceil>"
  shows "current_angle (computes h k s0) = real k * angle_delta (props s0) \<and>
         length (spawned (computes h k s0)) = length (spawned s0) + k"
  using k
proof (induction k)
  case 0
  show ?case using z by simp
next
  case (Suc k)
  let ?s = "computes h k s0"
  have ih: "current_angle ?s = real k * angle_delta (props s0)"
    "length (spawned ?s) = length (spawned s0) + k"
    using Suc by simp_all
  have "real k * angle_delta (props s0) < 2 * M_PI"
    using below_ceiling[OF d] Suc.prems by simp
  moreover have "0 \<le> real k * angle_delta (props s0)" using d by simp
  ultimately have can: "canCompute ?s"
    using ih(1) by (simp add: canCompute_def)
  have res: "resolves h ?s"
    using r by (simp add: always_resolves_resolves computes_props)
  show ?case
    using compute_step(2,3)[OF res can] ih
    by (simp add: computes_props algebra_simps)
qed



lemma computes_zero_delta:
  assumes "angle_delta (props s0) = 0" and "current_angle s0 = 0"
    and "always_resolves h (props s0)"
  shows "current_angle (computes h n s0) = 0"
proof (induction n)
  case 0
  show ?case using assms(2) by simp
next
  case (Suc n)
  then have can: "canCompute (computes h n s0)"
    by (simp add: canCompute_def M_PI_def)
  have res: "resolves h (computes h n s0)"
    using assms(3) by (simp add: always_resolves_resolves computes_props)
  show ?case
    using compute_step(2)[OF res can] Suc assms(1) by (simp add: computes_props)
qed

subsection \<open>The example environment\<close>

lemma example_frames:
  "getFrameTransform example_host sc ''hand'' = Translation3d 0 1 0"
  "getFrameTransform example_host sc ''tool'' = Translation3d 0 0 1"
  "getFrameTransform example_host sc ''object'' = Translation3d 1 0 0"
  by (simp_all add: example_host_def)

lemma example_static_frames: "static_frames example_host"
  by (simp add: static_frames_def example_host_def)

lemma determinant_Translation3d: "determinant (linear (Translation3d x y z)) = 1"
  by (simp add: Translation3d_def mat_id_def)

lemma moving_host_fields:
  "getEndEffector moving_host ''gripper'' =
     Some \<lparr>getEndEffectorParentLink = ''hand'', getLinkModelNames = [''finger'']\<rparr>"
  "getFrameTransform moving_host sc ''object'' = Translation3d 1 0 0"
  "getFrameTransform moving_host sc ''tool'' = Translation3d 0 0 1"
  "getFrameTransform moving_host sc ''hand'' = moved_to ''hand'' (Translation3d 0 1 0) sc"
  "updateStateWithLinkAt moving_host l t sc = sc @ [UpdateStateWithLinkAt l t]"
  by (simp_all add: moving_host_def example_host_def)

lemma example_frames_resolve:
  "frames_resolve example_host sc
     \<lparr>getEndEffectorParentLink = ''hand'', getLinkModelNames = [''finger'']\<rparr>
     (example_props ''object'' [] T d)"
  by (simp add: frames_resolve_def example_host_def example_props_def declared_frame_def
      Translation3d_def Identity_def)

lemma example_resolves:
  "resolves example_host (example_stage (example_props ''object'' [] T d) x)"
  using example_frames_resolve
  by (simp add: resolves_def example_stage_def) (simp add: example_host_def example_props_def)

lemma sweep_of_step_four: "nat \<lceil>2 * M_PI / 4\<rceil> = 2"
proof -
  have "\<lceil>2 * M_PI / 4\<rceil> = 2"
    using M_PI_bounds by (simp add: ceiling_eq_iff)
  then show ?thesis by simp
qed

lemma example_always_resolves:
  "always_resolves example_host (example_props ''object'' [] T d)"
  using example_frames_resolve [of _ T d]
  by (simp add: always_resolves_def) (simp add: example_host_def example_props_def)

lemma example_compute_True:
  "fst (compute example_host (example_stage (example_props ''object'' [] T 4) 0)) = Inr True"
  using compute_step(1)[OF example_resolves, of T 4 0]
  by (simp add: canCompute_def example_stage_def M_PI_def)

lemma AngleAxisd_UnitZ:
  "AngleAxisd x UnitZ = Affine3d (Mat3 (cos x) (- sin x) 0  (sin x) (cos x) 0  0 0 1) (Vec3 0 0 0)"
  by (simp add: UnitZ_def Let_def)

section \<open>The claims\<close>




text \<open>
  C2, as amended. \<open>canCompute\<close> is true exactly when the angle lies strictly between
  \<open>- 2 * M_PI\<close> and \<open>2 * M_PI\<close>, with \<open>M_PI\<close> the double of the code, false exactly when
  the angle is at most \<open>- 2 * M_PI\<close> or at least \<open>2 * M_PI\<close>, and true at the angle 0.
  Where it is true the angle lies strictly between \<open>- 2 pi\<close> and \<open>2 pi\<close>. It is a
  query: a function of the stage that returns a truth value and no stage, so no call of it
  changes anything, and its result depends on the angle alone.
\<close>

theorem canCompute_iff:
  "(canCompute s \<longleftrightarrow> - 2 * M_PI < current_angle s \<and> current_angle s < 2 * M_PI) \<and>
   (\<not> canCompute s \<longleftrightarrow> current_angle s \<le> - 2 * M_PI \<or> 2 * M_PI \<le> current_angle s) \<and>
   (canCompute s \<longrightarrow> - 2 * pi < current_angle s \<and> current_angle s < 2 * pi) \<and>
   canCompute (s\<lparr>current_angle := 0\<rparr>) \<and>
   canCompute (s\<lparr>props := p, scene := sc, spawned := sp\<rparr>) = canCompute s"
proof -
  have "0 < M_PI" using M_PI_bounds by simp
  then show ?thesis
    using M_PI_less_pi by (auto simp add: canCompute_def)
qed

theorem canCompute_iff_witness:
  "canCompute (example_stage (example_props ''object'' [] Identity 4) 4) \<and>
   \<not> canCompute (example_stage (example_props ''object'' [] Identity 4) 8) \<and>
   \<not> canCompute (example_stage (example_props ''object'' [] Identity 4) (- 8)) \<and>
   - 2 * pi < 4 \<and> 4 < 2 * pi"
  using canCompute_iff [of "example_stage (example_props ''object'' [] Identity 4) 4"]
        canCompute_iff [of "example_stage (example_props ''object'' [] Identity 4) 8"]
        canCompute_iff [of "example_stage (example_props ''object'' [] Identity 4) (- 8)"]
        M_PI_bounds
  by (simp add: example_stage_def)

text \<open>
  C2 as the specification states it, with the bound \<open>2 pi\<close>, fails at the angle
  \<open>2 * M_PI\<close>, the double that four steps of \<open>M_PI / 2\<close> reach: it lies strictly between
  \<open>- 2 pi\<close> and \<open>2 pi\<close>, and \<open>canCompute\<close> is false there.
\<close>

theorem canCompute_two_pi_counterexample:
  "- 2 * pi < current_angle (example_stage (example_props ''object'' [] Identity (M_PI / 2)) (2 * M_PI)) \<and>
   current_angle (example_stage (example_props ''object'' [] Identity (M_PI / 2)) (2 * M_PI)) < 2 * pi \<and>
   \<not> canCompute (example_stage (example_props ''object'' [] Identity (M_PI / 2)) (2 * M_PI))"
  using M_PI_less_pi M_PI_bounds
  by (simp add: canCompute_def example_stage_def)

text \<open>
  C3. Where \<open>canCompute\<close> is true, the end effector exists and every lookup succeeds, one
  call of \<open>compute\<close> returns true, spawns exactly one pair and advances the angle by
  \<open>angle_delta\<close>. No call of \<open>compute\<close> spawns more than one pair.
\<close>

theorem compute_emits_one:
  "(resolves h s \<and> canCompute s \<longrightarrow>
      fst (compute h s) = Inr True \<and>
      (\<exists>c. spawned (snd (compute h s)) = spawned s @ [c]) \<and>
      current_angle (snd (compute h s)) = current_angle s + angle_delta (props s)) \<and>
   length (spawned (snd (compute h s))) \<le> length (spawned s) + 1"
proof (intro conjI impI)
  assume a: "resolves h s \<and> canCompute s"
  then obtain jmg where j: "getEndEffector h (eef (props s)) = Some jmg"
    and fr: "frames_resolve h (apply_named_pose h jmg (props s) (scene s)) jmg (props s)"
    by (auto simp add: resolves_def split: option.splits)
  obtain gl where gl: "grasp2link_of h (apply_named_pose h jmg (props s) (scene s)) jmg (props s) = Inr gl"
    using grasp2link_of_Inr[OF fr] by blast
  have ob: "getFrameTransform h (apply_named_pose h jmg (props s) (scene s)) (object (props s)) \<noteq> Identity"
    using fr by (simp add: frames_resolve_def)
  note c = compute_success[OF j gl ob conjunct2[OF a]]
  show "fst (compute h s) = Inr True" by (simp add: c)
  show "\<exists>c. spawned (snd (compute h s)) = spawned s @ [c]"
    by (simp add: c sample_def Let_def)
  show "current_angle (snd (compute h s)) = current_angle s + angle_delta (props s)"
    by (simp add: c sample_fields)
next
  show "length (spawned (snd (compute h s))) \<le> length (spawned s) + 1"
    using compute_at_most_one[of h s] by simp
qed

theorem compute_emits_one_witness:
  "fst (compute example_host (example_stage (example_props ''object'' [] Identity 4) 0)) = Inr True \<and>
   length (spawned (snd (compute example_host (example_stage (example_props ''object'' [] Identity 4) 0)))) = 1 \<and>
   current_angle (snd (compute example_host (example_stage (example_props ''object'' [] Identity 4) 0))) = 4"
proof -
  let ?s = "example_stage (example_props ''object'' [] Identity 4) 0"
  have "resolves example_host ?s" by (rule example_resolves)
  moreover have "canCompute ?s" by (simp add: canCompute_def example_stage_def M_PI_def)
  ultimately show ?thesis
    using compute_emits_one [of example_host ?s]
    by (auto simp add: example_stage_def example_props_def)
qed

text \<open>
  C4. In a call of \<open>compute\<close> that returns true, the pose of the emitted target is
  computed from the angle on entry and the name of the trajectory from the angle after the
  increment: the pose is the object's pose, times the rotation about the z axis by the
  angle \<open>x\<close> on entry, times the transform from the grasp frame to the link, and the name is
  the string of \<open>x + angle_delta\<close>. On a call at the angle 0 with the identity as that
  transform, the pose is the object's pose; the transform is the identity when the offset
  is the identity and is declared in the link frame. The rotation \<open>AngleAxisd x UnitZ\<close> is
  the matrix of the rotation about the z axis (lemma \<open>AngleAxisd_UnitZ\<close>).
\<close>

theorem pose_before_name_after:
  assumes "getEndEffector h (eef (props s)) = Some jmg"
    and "fst (compute h s) = Inr True"
  shows "\<exists>gl. grasp2link_of h (apply_named_pose h jmg (props s) (scene s)) jmg (props s) = Inr gl \<and>
    (let sc = apply_named_pose h jmg (props s) (scene s);
         object_pose = getFrameTransform h sc (object (props s));
         emitted = last (spawned (snd (compute h s)))
     in pose (target_pose (fst emitted)) =
          compose (compose object_pose (AngleAxisd (current_angle s) UnitZ)) gl \<and>
        name (snd emitted) = to_string h (current_angle s + angle_delta (props s)) \<and>
        (current_angle s = 0 \<and> gl = Identity \<longrightarrow> pose (target_pose (fst emitted)) = object_pose)) \<and>
    (transform (tool_to_grasp_tf (props s)) = Identity \<and>
     declared_frame jmg (props s) = getEndEffectorParentLink jmg \<longrightarrow> gl = Identity)"
proof -
  let ?sc = "apply_named_pose h jmg (props s) (scene s)"
  let ?P = "getFrameTransform h ?sc (object (props s))"
  obtain gl where gl: "grasp2link_of h ?sc jmg (props s) = Inr gl"
    and c: "compute h s = (Inr True, sample h jmg gl ?P (s\<lparr>scene := ?sc\<rparr>))"
    using compute_True_D[OF assms] by blast
  let ?e = "last (spawned (snd (compute h s)))"
  have p: "pose (target_pose (fst ?e)) = compose (compose ?P (AngleAxisd (current_angle s) UnitZ)) gl"
    unfolding c by (simp add: sample_def Let_def)
  have n: "name (snd ?e) = to_string h (current_angle s + angle_delta (props s))"
    unfolding c by (simp add: sample_def Let_def)
  have f: "pose (target_pose (fst ?e)) = ?P" if "current_angle s = 0" "gl = Identity"
    using p that by (simp add: AngleAxisd_zero_UnitZ compose_Identity_right)
  have i: "gl = Identity"
    if "transform (tool_to_grasp_tf (props s)) = Identity"
      "declared_frame jmg (props s) = getEndEffectorParentLink jmg"
    using gl that by (simp add: grasp2link_of_def grasp2tool_of_def inverse_tf_Identity)
  show ?thesis
    using gl p n f i by (auto simp add: Let_def)
qed

theorem pose_before_name_after_witness:
  "pose (target_pose (fst (last (spawned (snd (compute example_host
      (example_stage (example_props ''object'' [] Identity 4) 0))))))) = Translation3d 1 0 0 \<and>
   name (snd (last (spawned (snd (compute example_host
      (example_stage (example_props ''object'' [] Identity 4) 0)))))) = to_string example_host 4"
proof -
  let ?s = "example_stage (example_props ''object'' [] Identity 4) 0"
  let ?j = "\<lparr>getEndEffectorParentLink = ''hand'', getLinkModelNames = [''finger'']\<rparr>"
  let ?e = "last (spawned (snd (compute example_host ?s)))"
  have 1: "getEndEffector example_host (eef (props ?s)) = Some ?j"
    by (simp add: example_host_def example_stage_def example_props_def)
  have 2: "fst (compute example_host ?s) = Inr True" by (rule example_compute_True)
  have 3: "current_angle ?s = 0" "angle_delta (props ?s) = 4"
    "transform (tool_to_grasp_tf (props ?s)) = Identity"
    "declared_frame ?j (props ?s) = getEndEffectorParentLink ?j"
    "object (props ?s) = ''object''"
    by (simp_all add: example_stage_def example_props_def declared_frame_def)
  from pose_before_name_after [OF 1 2] obtain gl where
    a: "let sc = apply_named_pose example_host ?j (props ?s) (scene ?s);
         object_pose = getFrameTransform example_host sc (object (props ?s));
         emitted = ?e
     in pose (target_pose (fst emitted)) =
          compose (compose object_pose (AngleAxisd (current_angle ?s) UnitZ)) gl \<and>
        name (snd emitted) = to_string example_host (current_angle ?s + angle_delta (props ?s)) \<and>
        (current_angle ?s = 0 \<and> gl = Identity \<longrightarrow> pose (target_pose (fst emitted)) = object_pose)"
    and b: "transform (tool_to_grasp_tf (props ?s)) = Identity \<and>
      declared_frame ?j (props ?s) = getEndEffectorParentLink ?j \<longrightarrow> gl = Identity"
    by blast
  have g: "gl = Identity" using b 3 by blast
  from a have "name (snd ?e) = to_string example_host (0 + 4) \<and>
      pose (target_pose (fst ?e)) = Translation3d 1 0 0"
    unfolding Let_def 3 example_frames g by blast
  then show ?thesis by simp
qed

text \<open>
  C5, as amended. When the offset \<open>T\<close> is declared in a frame \<open>F\<close> other than the parent
  link and both frames resolve, the transform from the grasp frame to the link is the
  inverse of \<open>inverse link_pose * F_pose * T\<close>. With the pose of the link in the place
  of the pose of \<open>F\<close>, and a link pose that can be inverted, this is the inverse of \<open>T\<close>,
  the transform of the direct case.
\<close>

theorem offset_in_other_frame:
  assumes "declared_frame jmg p \<noteq> getEndEffectorParentLink jmg"
    and "getFrameTransform h sc (getEndEffectorParentLink jmg) \<noteq> Identity"
    and "getFrameTransform h sc (declared_frame jmg p) \<noteq> Identity"
  shows "grasp2link_of h sc jmg p =
           Inr (inverse_tf (compose (compose (inverse_tf (getFrameTransform h sc (getEndEffectorParentLink jmg)))
                                             (getFrameTransform h sc (declared_frame jmg p)))
                                    (transform (tool_to_grasp_tf p)))) \<and>
         (determinant (linear (getFrameTransform h sc (getEndEffectorParentLink jmg))) \<noteq> 0 \<longrightarrow>
            inverse_tf (compose (compose (inverse_tf (getFrameTransform h sc (getEndEffectorParentLink jmg)))
                                         (getFrameTransform h sc (getEndEffectorParentLink jmg)))
                                (transform (tool_to_grasp_tf p)))
              = inverse_tf (transform (tool_to_grasp_tf p)))"
  using assms
  by (simp add: grasp2link_of_def Let_def inverse_tf_left compose_Identity_left)

theorem offset_in_other_frame_witness:
  "grasp2link_of example_host []
     \<lparr>getEndEffectorParentLink = ''hand'', getLinkModelNames = [''finger'']\<rparr>
     (example_props ''object'' ''tool'' (Translation3d 1 0 0) 4)
   = Inr (Translation3d (- 1) 1 (- 1)) \<and>
   inverse_tf (compose (compose (inverse_tf (Translation3d 0 1 0)) (Translation3d 0 1 0))
                       (Translation3d 1 0 0))
   = inverse_tf (Translation3d 1 0 0)"
proof -
  let ?j = "\<lparr>getEndEffectorParentLink = ''hand'', getLinkModelNames = [''finger'']\<rparr>"
  let ?p = "example_props ''object'' ''tool'' (Translation3d 1 0 0) 4"
  have d: "declared_frame ?j ?p = ''tool''" "getEndEffectorParentLink ?j = ''hand''"
    "transform (tool_to_grasp_tf ?p) = Translation3d 1 0 0"
    by (simp_all add: declared_frame_def example_props_def)
  have 1: "declared_frame ?j ?p \<noteq> getEndEffectorParentLink ?j"
    unfolding d by simp
  have 2: "getFrameTransform example_host [] (getEndEffectorParentLink ?j) \<noteq> Identity"
    unfolding d example_frames by (simp add: Translation3d_def Identity_def)
  have 3: "getFrameTransform example_host [] (declared_frame ?j ?p) \<noteq> Identity"
    unfolding d example_frames by (simp add: Translation3d_def Identity_def)
  have 4: "determinant (linear (Translation3d 0 1 0)) \<noteq> 0"
    by (simp add: determinant_Translation3d)
  have "grasp2link_of example_host [] ?j ?p =
          Inr (inverse_tf (compose (compose (inverse_tf (Translation3d 0 1 0)) (Translation3d 0 0 1))
                                   (Translation3d 1 0 0))) \<and>
        inverse_tf (compose (compose (inverse_tf (Translation3d 0 1 0)) (Translation3d 0 1 0))
                            (Translation3d 1 0 0))
          = inverse_tf (Translation3d 1 0 0)"
    using offset_in_other_frame [OF 1 2 3] 4 unfolding d example_frames by blast
  then show ?thesis
    by (simp add: Translation3d_def mat_id_def)
qed

text \<open>
  C5 as the specification states it, without the outer inverse, fails: with the link at
  \<open>(0, 1, 0)\<close>, the frame \<open>tool\<close> at \<open>(0, 0, 1)\<close> and the offset a translation by
  \<open>(1, 0, 0)\<close>, the transform from the grasp frame to the link is the translation by
  \<open>(- 1, 1, - 1)\<close> and not by \<open>(1, - 1, 1)\<close>; and with the link in the place of the
  frame, the stated product is \<open>T\<close> itself and not its inverse.
\<close>

theorem offset_in_other_frame_counterexample:
  "grasp2link_of example_host []
     \<lparr>getEndEffectorParentLink = ''hand'', getLinkModelNames = [''finger'']\<rparr>
     (example_props ''object'' ''tool'' (Translation3d 1 0 0) 4)
   \<noteq> Inr (compose (compose (inverse_tf (getFrameTransform example_host [] ''hand''))
                           (getFrameTransform example_host [] ''tool''))
                  (Translation3d 1 0 0)) \<and>
   compose (compose (inverse_tf (getFrameTransform example_host [] ''hand''))
                    (getFrameTransform example_host [] ''hand''))
           (Translation3d 1 0 0)
   \<noteq> inverse_tf (Translation3d 1 0 0)"
  unfolding example_frames
  by (simp add: grasp2link_of_def declared_frame_def example_props_def example_frames
      Translation3d_def Identity_def mat_id_def)

text \<open>
  C6. When the offset \<open>T\<close> is declared in the frame of the parent link, by name or by an
  empty frame id, \<open>compute\<close> takes the inverse of \<open>T\<close> both as the transform from the
  grasp frame to the tool and as the transform from the grasp frame to the link, which is
  how the emitted pose is built; and for a transform \<open>T\<close> that has an inverse, that is,
  whose linear part has a determinant other than zero, the product of that inverse with
  \<open>T\<close> is the identity.
\<close>

theorem offset_in_link_frame:
  assumes "getEndEffector h (eef (props s)) = Some jmg"
    and "tf_frame_id (tool_to_grasp_tf (props s)) = [] \<or>
         tf_frame_id (tool_to_grasp_tf (props s)) = getEndEffectorParentLink jmg"
  shows "grasp2tool_of (props s) = inverse_tf (transform (tool_to_grasp_tf (props s))) \<and>
         grasp2link_of h (apply_named_pose h jmg (props s) (scene s)) jmg (props s)
           = Inr (inverse_tf (transform (tool_to_grasp_tf (props s)))) \<and>
         (fst (compute h s) = Inr True \<longrightarrow>
            pose (target_pose (fst (last (spawned (snd (compute h s)))))) =
              compose (compose (getFrameTransform h (apply_named_pose h jmg (props s) (scene s))
                                  (object (props s)))
                               (AngleAxisd (current_angle s) UnitZ))
                      (inverse_tf (transform (tool_to_grasp_tf (props s))))) \<and>
         (determinant (linear (transform (tool_to_grasp_tf (props s)))) \<noteq> 0 \<longrightarrow>
            compose (grasp2tool_of (props s)) (transform (tool_to_grasp_tf (props s))) = Identity)"
proof -
  let ?sc = "apply_named_pose h jmg (props s) (scene s)"
  let ?T = "transform (tool_to_grasp_tf (props s))"
  have d: "declared_frame jmg (props s) = getEndEffectorParentLink jmg"
    using assms(2) by (auto simp add: declared_frame_def)
  have gl: "grasp2link_of h ?sc jmg (props s) = Inr (inverse_tf ?T)"
    using d by (simp add: grasp2link_of_def grasp2tool_of_def)
  have p: "pose (target_pose (fst (last (spawned (snd (compute h s)))))) =
             compose (compose (getFrameTransform h ?sc (object (props s)))
                        (AngleAxisd (current_angle s) UnitZ)) (inverse_tf ?T)"
    if "fst (compute h s) = Inr True"
    using compute_True_D[OF assms(1) that] gl by (auto simp add: sample_def Let_def)
  show ?thesis
    using gl p by (simp add: grasp2tool_of_def inverse_tf_left)
qed

theorem offset_in_link_frame_witness:
  "grasp2tool_of (example_props ''object'' [] (Translation3d 1 2 3) 4) = Translation3d (- 1) (- 2) (- 3) \<and>
   compose (grasp2tool_of (example_props ''object'' [] (Translation3d 1 2 3) 4)) (Translation3d 1 2 3)
     = Identity \<and>
   pose (target_pose (fst (last (spawned (snd (compute example_host
      (example_stage (example_props ''object'' [] (Translation3d 1 2 3) 4) 0)))))))
     = Translation3d 0 (- 2) (- 3)"
proof -
  let ?p = "example_props ''object'' [] (Translation3d 1 2 3) 4"
  let ?s = "example_stage ?p 0"
  let ?j = "\<lparr>getEndEffectorParentLink = ''hand'', getLinkModelNames = [''finger'']\<rparr>"
  have 1: "getEndEffector example_host (eef (props ?s)) = Some ?j"
    by (simp add: example_host_def example_stage_def example_props_def)
  have 2: "tf_frame_id (tool_to_grasp_tf (props ?s)) = [] \<or>
           tf_frame_id (tool_to_grasp_tf (props ?s)) = getEndEffectorParentLink ?j"
    by (simp add: example_stage_def example_props_def)
  have 3: "props ?s = ?p" "transform (tool_to_grasp_tf ?p) = Translation3d 1 2 3"
    "object ?p = ''object''" "current_angle ?s = 0"
    by (simp_all add: example_stage_def example_props_def)
  have 4: "determinant (linear (Translation3d 1 2 3)) \<noteq> 0"
    by (simp add: determinant_Translation3d)
  have 5: "fst (compute example_host ?s) = Inr True" by (rule example_compute_True)
  have "grasp2tool_of ?p = inverse_tf (Translation3d 1 2 3) \<and>
        compose (grasp2tool_of ?p) (Translation3d 1 2 3) = Identity \<and>
        pose (target_pose (fst (last (spawned (snd (compute example_host ?s)))))) =
          compose (compose (Translation3d 1 0 0) (AngleAxisd 0 UnitZ)) (inverse_tf (Translation3d 1 2 3))"
    using offset_in_link_frame [OF 1 2] 4 5 unfolding 3 example_frames by blast
  then show ?thesis
    by (simp add: AngleAxisd_zero_UnitZ compose_Identity_right)
       (simp add: Translation3d_def mat_id_def Identity_def)
qed

text \<open>
  C7. If the end effector exists and a lookup of \<open>compute\<close> fails, that is, it returns the
  identity for the object, or for the parent link or the declared frame when the declared
  frame is not the parent link, then \<open>compute\<close> throws a runtime error, spawns nothing and
  leaves the angle as it was.
\<close>

theorem compute_resolution_failure:
  assumes "getEndEffector h (eef (props s)) = Some jmg"
    and "\<not> frames_resolve h (apply_named_pose h jmg (props s) (scene s)) jmg (props s)"
  shows "(\<exists>msg. fst (compute h s) = Inl (RuntimeError msg)) \<and>
         spawned (snd (compute h s)) = spawned s \<and>
         current_angle (snd (compute h s)) = current_angle s"
  using assms
  by (auto simp add: compute_def Let_def frames_resolve_def grasp2link_of_def split: sum.splits)

theorem compute_resolution_failure_witness:
  "fst (compute example_host (example_stage (example_props ''missing'' [] Identity 4) 0))
     = Inl (RuntimeError ''requested object does not exist or could not be retrieved'') \<and>
   spawned (snd (compute example_host (example_stage (example_props ''missing'' [] Identity 4) 0))) = [] \<and>
   current_angle (snd (compute example_host (example_stage (example_props ''missing'' [] Identity 4) 0))) = 0"
proof -
  let ?s = "example_stage (example_props ''missing'' [] Identity 4) 0"
  let ?j = "\<lparr>getEndEffectorParentLink = ''hand'', getLinkModelNames = [''finger'']\<rparr>"
  have 1: "getEndEffector example_host (eef (props ?s)) = Some ?j"
    by (simp add: example_host_def example_stage_def example_props_def)
  have 2: "\<not> frames_resolve example_host (apply_named_pose example_host ?j (props ?s) (scene ?s)) ?j (props ?s)"
    by (simp add: frames_resolve_def example_host_def example_stage_def example_props_def)
  have 3: "fst (compute example_host ?s)
     = Inl (RuntimeError ''requested object does not exist or could not be retrieved'')"
    by (simp add: compute_def Let_def example_host_def example_stage_def example_props_def
        grasp2link_of_def declared_frame_def apply_named_pose_def)
  show ?thesis
    using compute_resolution_failure [OF 1 2] 3
    by (simp add: example_stage_def)
qed

text \<open>
  C8, as amended. Where \<open>canCompute\<close> is false, the end effector exists and every lookup
  succeeds, \<open>compute\<close> returns false, spawns nothing and leaves the angle as it was. The
  scene is the one the named pose leaves behind: with no named pose configured the whole
  stage is unchanged.
\<close>

theorem compute_when_exhausted:
  assumes "getEndEffector h (eef (props s)) = Some jmg"
    and "frames_resolve h (apply_named_pose h jmg (props s) (scene s)) jmg (props s)"
    and "\<not> canCompute s"
  shows "compute h s = (Inr False, s\<lparr>scene := apply_named_pose h jmg (props s) (scene s)\<rparr>) \<and>
         spawned (snd (compute h s)) = spawned s \<and>
         current_angle (snd (compute h s)) = current_angle s \<and>
         (eef_named_pose (props s) = [] \<longrightarrow> compute h s = (Inr False, s))"
  using compute_exhausted[OF assms] by (simp add: apply_named_pose_def)

theorem compute_when_exhausted_witness:
  "compute example_host (example_stage (example_props ''object'' [] Identity 4) 8)
     = (Inr False, example_stage (example_props ''object'' [] Identity 4) 8)"
proof -
  let ?s = "example_stage (example_props ''object'' [] Identity 4) 8"
  let ?j = "\<lparr>getEndEffectorParentLink = ''hand'', getLinkModelNames = [''finger'']\<rparr>"
  have p: "props ?s = example_props ''object'' [] Identity 4" by (simp add: example_stage_def)
  have 1: "getEndEffector example_host (eef (props ?s)) = Some ?j"
    by (simp add: example_host_def example_stage_def example_props_def)
  have 2: "frames_resolve example_host (apply_named_pose example_host ?j (props ?s) (scene ?s)) ?j (props ?s)"
    unfolding p by (rule example_frames_resolve)
  have 3: "\<not> canCompute ?s"
    by (simp add: canCompute_def example_stage_def M_PI_def)
  have 4: "eef_named_pose (props ?s) = []"
    by (simp add: example_stage_def example_props_def)
  show ?thesis
    using compute_when_exhausted [OF 1 2 3] 4 by blast
qed

text \<open>
  C8 as the specification states it fails in two ways, both beyond \<open>2 pi\<close> at the angle
  8. With an object that does not resolve, \<open>compute\<close> throws instead of returning false:
  the lookups come before the loop. With the named pose \<open>open\<close> configured, \<open>compute\<close>
  returns false after it has applied the named pose to the robot state of the scene.
\<close>

theorem compute_when_exhausted_counterexample:
  "\<not> canCompute (example_stage (example_props ''missing'' [] Identity 4) 8) \<and>
   fst (compute example_host (example_stage (example_props ''missing'' [] Identity 4) 8))
     = Inl (RuntimeError ''requested object does not exist or could not be retrieved'') \<and>
   \<not> canCompute (example_stage ((example_props ''object'' [] Identity 4)\<lparr>eef_named_pose := ''open''\<rparr>) 8) \<and>
   scene (snd (compute example_host
      (example_stage ((example_props ''object'' [] Identity 4)\<lparr>eef_named_pose := ''open''\<rparr>) 8)))
     = [SetToDefaultValues \<lparr>getEndEffectorParentLink = ''hand'', getLinkModelNames = [''finger'']\<rparr> ''open''] \<and>
   scene (example_stage ((example_props ''object'' [] Identity 4)\<lparr>eef_named_pose := ''open''\<rparr>) 8) = []"
proof -
  have c: "\<not> canCompute (example_stage p 8)" for p
    by (simp add: canCompute_def example_stage_def M_PI_def)
  have 1: "fst (compute example_host (example_stage (example_props ''missing'' [] Identity 4) 8))
     = Inl (RuntimeError ''requested object does not exist or could not be retrieved'')"
    by (simp add: compute_def Let_def example_host_def example_stage_def example_props_def
        grasp2link_of_def declared_frame_def apply_named_pose_def)
  have 2: "scene (snd (compute example_host
      (example_stage ((example_props ''object'' [] Identity 4)\<lparr>eef_named_pose := ''open''\<rparr>) 8)))
     = [SetToDefaultValues \<lparr>getEndEffectorParentLink = ''hand'', getLinkModelNames = [''finger'']\<rparr> ''open'']"
    by (simp add: compute_def Let_def example_host_def example_stage_def example_props_def
        grasp2link_of_def declared_frame_def apply_named_pose_def canCompute_def M_PI_def
        Translation3d_def Identity_def)
  show ?thesis
    using c 1 2 by (simp add: example_stage_def)
qed

text \<open>
  C9. For a stage \<open>s\<close> reached from the angle 0 by calls of \<open>compute\<close>: if \<open>canCompute\<close>
  is false in \<open>s\<close>, it is false after any number of further calls, and the angle stays
  what it is; no call decreases the absolute value of the angle; and a call returns true
  only where \<open>canCompute\<close> is true, so a sample leads from an active stage to an active
  or an exhausted one and never out of an exhausted one.
\<close>

theorem exhausted_is_terminal:
  assumes "current_angle s0 = 0" and "s = computes h k s0"
  shows "(\<not> canCompute s \<longrightarrow>
            (\<forall>n. \<not> canCompute (computes h n s) \<and>
                 current_angle (computes h n s) = current_angle s)) \<and>
         \<bar>current_angle s\<bar> \<le> \<bar>current_angle (snd (compute h s))\<bar> \<and>
         (fst (compute h s) = Inr True \<longrightarrow> canCompute s)"
proof -
  obtain m :: nat where "current_angle s = real m * angle_delta (props s)"
    using computes_multiple[OF assms(1), of h k] assms(2) by (auto simp add: computes_props)
  then have "\<bar>current_angle s\<bar> \<le> \<bar>current_angle (snd (compute h s))\<bar>"
    by (rule compute_abs_mono)
  then show ?thesis
    using computes_exhausted[of s h] compute_True_canCompute[of h s] by blast
qed

theorem exhausted_is_terminal_witness:
  "\<not> canCompute (computes example_host 2 (example_stage (example_props ''object'' [] Identity 4) 0)) \<and>
   \<not> canCompute (computes example_host 5 (example_stage (example_props ''object'' [] Identity 4) 0)) \<and>
   current_angle (computes example_host 5 (example_stage (example_props ''object'' [] Identity 4) 0)) = 8 \<and>
   fst (compute example_host (example_stage (example_props ''object'' [] Identity 4) 0)) = Inr True \<and>
   canCompute (example_stage (example_props ''object'' [] Identity 4) 0)"
proof -
  let ?i = "example_stage (example_props ''object'' [] Identity 4) 0"
  let ?s = "computes example_host 2 ?i"
  have 1: "current_angle ?i = 0" by (simp add: example_stage_def)
  have d: "0 < angle_delta (props ?i)" by (simp add: example_stage_def example_props_def)
  have r: "always_resolves example_host (props ?i)"
    using example_always_resolves by (simp add: example_stage_def)
  have N: "nat \<lceil>2 * M_PI / angle_delta (props ?i)\<rceil> = 2"
    using sweep_of_step_four by (simp add: example_stage_def example_props_def)
  have a: "current_angle ?s = 8"
    using sweep[OF d 1 r, of 2] unfolding N by (simp add: example_stage_def example_props_def)
  then have 2: "\<not> canCompute ?s"
    by (simp add: canCompute_def M_PI_def)
  have 3: "computes example_host 5 ?i = computes example_host 3 ?s"
    by (simp add: numeral_eq_Suc)
  have 4: "?i = computes example_host 0 ?i" by simp
  have 5: "fst (compute example_host ?i) = Inr True" by (rule example_compute_True)
  have "canCompute ?i"
    using exhausted_is_terminal [OF 1 4] 5 by blast
  with 5 show ?thesis
    using exhausted_is_terminal [OF 1 refl, of example_host 2] 2 a unfolding 3 by simp
qed

text \<open>
  C10, as amended. With \<open>angle_delta = 0\<close>, a generator that starts at the angle 0 in an
  environment where every lookup succeeds is never exhausted: after any number \<open>n\<close> of
  calls the angle is 0 and \<open>canCompute\<close> is true, and the next call returns true and spawns
  one more candidate, whose pose is the object's pose rotated by the angle 0, times the
  transform from the grasp frame to the link, both as that call resolves them. Where the
  frames do not move when the robot state is changed, they are the pose and the transform
  of the first call, and every candidate has the same pose.
\<close>

theorem zero_delta_never_exhausts:
  assumes "angle_delta (props s0) = 0" and "current_angle s0 = 0"
    and "always_resolves h (props s0)"
    and "getEndEffector h (eef (props s0)) = Some jmg"
  shows "current_angle (computes h n s0) = 0 \<and>
         canCompute (computes h n s0) \<and>
         fst (compute h (computes h n s0)) = Inr True \<and>
         (\<exists>gl c. grasp2link_of h (apply_named_pose h jmg (props s0) (scene (computes h n s0)))
                               jmg (props s0) = Inr gl \<and>
                 spawned (computes h (Suc n) s0) = spawned (computes h n s0) @ [c] \<and>
                 pose (target_pose (fst c)) =
                   compose (compose (getFrameTransform h
                                       (apply_named_pose h jmg (props s0) (scene (computes h n s0)))
                                       (object (props s0)))
                                    (AngleAxisd 0 UnitZ)) gl) \<and>
         (static_frames h \<longrightarrow>
            (\<exists>gl c. grasp2link_of h (scene s0) jmg (props s0) = Inr gl \<and>
                    spawned (computes h (Suc n) s0) = spawned (computes h n s0) @ [c] \<and>
                    pose (target_pose (fst c)) =
                      compose (compose (getFrameTransform h (scene s0) (object (props s0)))
                                       (AngleAxisd 0 UnitZ)) gl))"
proof -
  let ?s = "computes h n s0"
  let ?sc = "apply_named_pose h jmg (props s0) (scene ?s)"
  have z: "current_angle ?s = 0"
    using computes_zero_delta[OF assms(1,2,3)] .
  then have can: "canCompute ?s"
    using M_PI_bounds by (simp add: canCompute_def)
  have res: "resolves h ?s"
    using assms(3) by (simp add: always_resolves_resolves computes_props)
  have t: "fst (compute h ?s) = Inr True"
    using compute_step(1)[OF res can] .
  have j: "getEndEffector h (eef (props ?s)) = Some jmg"
    using assms(4) by (simp add: computes_props)
  obtain gl where gl: "grasp2link_of h ?sc jmg (props s0) = Inr gl"
    and c: "compute h ?s = (Inr True, sample h jmg gl
              (getFrameTransform h ?sc (object (props s0))) (?s\<lparr>scene := ?sc\<rparr>))"
    using compute_True_D[OF j t] by (auto simp add: computes_props)
  obtain c' where c': "spawned (computes h (Suc n) s0) = spawned ?s @ [c']"
    and p: "pose (target_pose (fst c')) =
              compose (compose (getFrameTransform h ?sc (object (props s0))) (AngleAxisd 0 UnitZ)) gl"
    by (simp add: c sample_def Let_def z)
  have general: "\<exists>gl c. grasp2link_of h ?sc jmg (props s0) = Inr gl \<and>
                 spawned (computes h (Suc n) s0) = spawned ?s @ [c] \<and>
                 pose (target_pose (fst c)) =
                   compose (compose (getFrameTransform h ?sc (object (props s0)))
                                    (AngleAxisd 0 UnitZ)) gl"
    using gl c' p by blast
  have static: "\<exists>gl c. grasp2link_of h (scene s0) jmg (props s0) = Inr gl \<and>
                    spawned (computes h (Suc n) s0) = spawned ?s @ [c] \<and>
                    pose (target_pose (fst c)) =
                      compose (compose (getFrameTransform h (scene s0) (object (props s0)))
                                       (AngleAxisd 0 UnitZ)) gl"
    if st: "static_frames h"
  proof -
    have "grasp2link_of h (scene s0) jmg (props s0) = Inr gl"
      using gl static_grasp2link_of[OF st, of "scene s0" jmg "props s0" ?sc] by simp
    moreover have "getFrameTransform h ?sc (object (props s0))
        = getFrameTransform h (scene s0) (object (props s0))"
      using st by (simp add: static_frames_def)
    ultimately show ?thesis using c' p by auto
  qed
  from z can t general static show ?thesis by blast
qed

theorem zero_delta_never_exhausts_witness:
  "current_angle (computes example_host 3 (example_stage (example_props ''object'' [] Identity 0) 0)) = 0 \<and>
   canCompute (computes example_host 3 (example_stage (example_props ''object'' [] Identity 0) 0)) \<and>
   fst (compute example_host (computes example_host 3
          (example_stage (example_props ''object'' [] Identity 0) 0))) = Inr True \<and>
   (\<exists>c. spawned (computes example_host (Suc 3) (example_stage (example_props ''object'' [] Identity 0) 0))
          = spawned (computes example_host 3 (example_stage (example_props ''object'' [] Identity 0) 0)) @ [c] \<and>
        pose (target_pose (fst c)) = Translation3d 1 0 0)"
proof -
  let ?i = "example_stage (example_props ''object'' [] Identity 0) 0"
  let ?j = "\<lparr>getEndEffectorParentLink = ''hand'', getLinkModelNames = [''finger'']\<rparr>"
  have p: "props ?i = example_props ''object'' [] Identity 0" by (simp add: example_stage_def)
  have 1: "angle_delta (props ?i) = 0" by (simp add: example_stage_def example_props_def)
  have 2: "current_angle ?i = 0" by (simp add: example_stage_def)
  have 3: "always_resolves example_host (props ?i)"
    unfolding p by (rule example_always_resolves)
  have 4: "getEndEffector example_host (eef (props ?i)) = Some ?j"
    by (simp add: example_host_def example_stage_def example_props_def)
  have g: "grasp2link_of example_host (scene ?i) ?j (props ?i) = Inr Identity"
    by (simp add: grasp2link_of_def grasp2tool_of_def declared_frame_def example_stage_def
        example_props_def inverse_tf_Identity)
  have o: "getFrameTransform example_host (scene ?i) (object (props ?i)) = Translation3d 1 0 0"
    by (simp add: example_stage_def example_props_def example_frames)
  have e: "compose (compose (Translation3d 1 0 0) (AngleAxisd 0 UnitZ)) Identity = Translation3d 1 0 0"
    by (simp add: AngleAxisd_zero_UnitZ compose_Identity_right)
  have "current_angle (computes example_host 3 ?i) = 0 \<and>
        canCompute (computes example_host 3 ?i) \<and>
        fst (compute example_host (computes example_host 3 ?i)) = Inr True \<and>
        (\<exists>gl c. Inr Identity = Inr gl \<and>
            spawned (computes example_host (Suc 3) ?i) = spawned (computes example_host 3 ?i) @ [c] \<and>
            pose (target_pose (fst c)) = compose (compose (Translation3d 1 0 0) (AngleAxisd 0 UnitZ)) gl)"
    using zero_delta_never_exhausts [OF 1 2 3 4, of 3] example_static_frames
    unfolding g o by blast
  then show ?thesis by (auto simp add: e)
qed

text \<open>
  C10 as the specification states it, with the identical pose in every resolvable
  environment, fails where the parent link moves and the offset is declared in another
  frame: \<open>compute\<close> puts the link at the pose it has emitted (line 168) and looks the link
  up again in the next call (line 122). With the step 0, the offset declared in the frame
  \<open>tool\<close>, both calls return true, and the second candidate has another pose than the
  first.
\<close>

theorem zero_delta_moving_link_counterexample:
  "angle_delta (props (example_stage (example_props ''object'' ''tool'' Identity 0) 0)) = 0 \<and>
   fst (compute moving_host (example_stage (example_props ''object'' ''tool'' Identity 0) 0)) = Inr True \<and>
   fst (compute moving_host
          (computes moving_host 1 (example_stage (example_props ''object'' ''tool'' Identity 0) 0)))
     = Inr True \<and>
   map (\<lambda>c. pose (target_pose (fst c)))
       (spawned (computes moving_host 2 (example_stage (example_props ''object'' ''tool'' Identity 0) 0)))
     = [Translation3d 1 1 (- 1), Translation3d 2 1 (- 2)]"
proof -
  let ?i = "example_stage (example_props ''object'' ''tool'' Identity 0) 0"
  let ?j = "\<lparr>getEndEffectorParentLink = ''hand'', getLinkModelNames = [''finger'']\<rparr>"
  let ?s1 = "computes moving_host 1 ?i"
  have f: "props ?i = example_props ''object'' ''tool'' Identity 0" "scene ?i = []"
    "current_angle ?i = 0" "spawned ?i = []"
    by (simp_all add: example_stage_def)
  have q: "eef (example_props ''object'' ''tool'' T 0) = ''gripper''"
    "eef_named_pose (example_props ''object'' ''tool'' T 0) = []"
    "object (example_props ''object'' ''tool'' T 0) = ''object''"
    "angle_delta (example_props ''object'' ''tool'' T 0) = 0"
    "declared_frame ?j (example_props ''object'' ''tool'' T 0) = ''tool''"
    "transform (tool_to_grasp_tf (example_props ''object'' ''tool'' T 0)) = T" for T
    by (simp_all add: example_props_def declared_frame_def)
  have can: "canCompute s" if "current_angle s = 0" for s :: "scene_change list stage"
    using that M_PI_bounds by (simp add: canCompute_def)
  have ne: "Translation3d 1 0 0 \<noteq> Identity"
    by (simp add: Translation3d_def Identity_def)
  have step: "compute moving_host s = (Inr True, sample moving_host ?j gl (Translation3d 1 0 0) s)"
    if "props s = example_props ''object'' ''tool'' Identity 0" and "current_angle s = 0"
      and "grasp2link_of moving_host (scene s) ?j (example_props ''object'' ''tool'' Identity 0) = Inr gl"
    for s :: "scene_change list stage" and gl
    using can[OF that(2)] that(3)
    by (simp add: compute_def that(1) q moving_host_fields apply_named_pose_def ne)
  have g1: "grasp2link_of moving_host [] ?j (example_props ''object'' ''tool'' Identity 0)
              = Inr (Translation3d 0 1 (- 1))"
    by (simp add: grasp2link_of_def Let_def q moving_host_fields moved_to_def
        Translation3d_def Identity_def mat_id_def)
  have c1: "compute moving_host ?i =
      (Inr True, sample moving_host ?j (Translation3d 0 1 (- 1)) (Translation3d 1 0 0) ?i)"
    by (rule step) (simp_all add: f g1)
  have p1: "compose (compose (Translation3d 1 0 0) (AngleAxisd 0 UnitZ)) (Translation3d 0 1 (- 1))
              = Translation3d 1 1 (- 1)"
    by (simp add: AngleAxisd_zero_UnitZ compose_Identity_right) (simp add: Translation3d_def mat_id_def)
  have one: "?s1 = snd (compute moving_host ?i)" by simp
  have s1: "props ?s1 = example_props ''object'' ''tool'' Identity 0"
    "scene ?s1 = [UpdateStateWithLinkAt ''hand'' (Translation3d 1 1 (- 1))]"
    "current_angle ?s1 = 0"
    "map (\<lambda>c. pose (target_pose (fst c))) (spawned ?s1) = [Translation3d 1 1 (- 1)]"
    unfolding one c1 by (simp_all add: sample_def Let_def f q moving_host_fields p1)
  have g2: "grasp2link_of moving_host [UpdateStateWithLinkAt ''hand'' (Translation3d 1 1 (- 1))] ?j
              (example_props ''object'' ''tool'' Identity 0)
              = Inr (Translation3d 1 1 (- 2))"
    by (simp add: grasp2link_of_def Let_def q moving_host_fields moved_to_def
        Translation3d_def Identity_def mat_id_def)
  have c2: "compute moving_host ?s1 =
      (Inr True, sample moving_host ?j (Translation3d 1 1 (- 2)) (Translation3d 1 0 0) ?s1)"
    by (rule step) (simp_all only: s1 g2)
  have p2: "compose (compose (Translation3d 1 0 0) (AngleAxisd 0 UnitZ)) (Translation3d 1 1 (- 2))
              = Translation3d 2 1 (- 2)"
    by (simp add: AngleAxisd_zero_UnitZ compose_Identity_right) (simp add: Translation3d_def mat_id_def)
  have two: "computes moving_host 2 ?i = snd (compute moving_host ?s1)"
    by (simp add: numeral_2_eq_2)
  have "map (\<lambda>c. pose (target_pose (fst c))) (spawned (computes moving_host 2 ?i))
          = [Translation3d 1 1 (- 1), Translation3d 2 1 (- 2)]"
    unfolding two c2 using s1(3,4) by (simp add: sample_def Let_def p2)
  then show ?thesis
    using c1 c2 by (simp add: f q)
qed

end
